theory Spec2Isabelle
  imports Main
begin

section \<open>Scoped evaluation: \<^verbatim>\<open>eval_in_scope\<close> of evalInScope.py\<close>

text \<open>
  The repository is one function,
  \<^verbatim>\<open>def eval_in_scope(code, context_as_scope):
      return eval(code, {"__builtins__": __builtins__}, context_as_scope)\<close>
  whose whole behaviour is that of Python's built-in \<^verbatim>\<open>eval\<close> called with an explicit
  globals dictionary and the caller's mapping as locals. The development therefore has two
  layers: a model of \<^verbatim>\<open>eval\<close> on a fragment of Python's expression language (lexer,
  parser, evaluator with Python's name resolution), and the function of the repository
  on top of it, written as the source writes it.

  The fragment is partial on purpose. Whatever it does not cover (a character, keyword or
  construct outside the grammar below, a value or a built-in whose behaviour is not
  written out) yields the outcome \<open>Unmodelled\<close>; the model then says nothing. Where
  it answers \<open>Returns\<close> or \<open>Raises\<close>, that is what the interpreter does. Memory and
  recursion limits of the interpreter are not modelled beyond the bounds stated at the
  lexer and the parser.
\<close>

subsection \<open>Values, exceptions, outcomes\<close>

text \<open>
  Python values the fragment computes with. \<open>VBuiltin n\<close> is the object bound to the
  name \<open>n\<close> in the \<^verbatim>\<open>builtins\<close> module, \<open>VBuiltinsModule\<close> that module itself (or
  its dictionary, which the interpreter binds to \<^verbatim>\<open>__builtins__\<close> in an imported module:
  name resolution treats both alike), and \<open>VOther k\<close> any object of a kind not modelled
  further (a dict, a user function, a float), told apart by \<open>k\<close>.
\<close>

datatype val =
    VInt int
  | VStr string
  | VNone
  | VBuiltin string
  | VBuiltinsModule
  | VOther nat

datatype exc =
    SyntaxError
  | NameError string
  | TypeError

type_synonym namespace = "string \<rightharpoonup> val"

text \<open>
  The outcome of an evaluation: the value returned or the exception raised, each with
  the locals mapping as the evaluation left it, or \<open>Unmodelled\<close>.
\<close>

datatype 'a outcome =
    Returns 'a namespace
  | Raises exc namespace
  | Unmodelled

fun final_scope :: "'a outcome \<Rightarrow> namespace option" where
  "final_scope (Returns v L) = Some L"
| "final_scope (Raises e L) = Some L"
| "final_scope Unmodelled = None"

fun returned :: "'a outcome \<Rightarrow> 'a option" where
  "returned (Returns v L) = Some v"
| "returned (Raises e L) = None"
| "returned Unmodelled = None"


subsection \<open>The built-in namespace\<close>

text \<open>
  The names bound in the \<^verbatim>\<open>builtins\<close> module of CPython 3.12 as started by default
  (functions and classes, constants, module attributes, exceptions and warnings). The
  source passes the module whole, under the key \<^verbatim>\<open>__builtins__\<close> of the globals.
\<close>

definition builtin_functions :: "string list" where
  "builtin_functions =
    [''abs'', ''aiter'', ''all'', ''anext'', ''any'', ''ascii'', ''bin'', ''bool'',
     ''breakpoint'', ''bytearray'', ''bytes'', ''callable'', ''chr'', ''classmethod'',
     ''compile'', ''complex'', ''copyright'', ''credits'', ''delattr'', ''dict'', ''dir'',
     ''divmod'', ''enumerate'', ''eval'', ''exec'', ''exit'', ''filter'', ''float'',
     ''format'', ''frozenset'', ''getattr'', ''globals'', ''hasattr'', ''hash'', ''help'',
     ''hex'', ''id'', ''input'', ''int'', ''isinstance'', ''issubclass'', ''iter'', ''len'',
     ''license'', ''list'', ''locals'', ''map'', ''max'', ''memoryview'', ''min'', ''next'',
     ''object'', ''oct'', ''open'', ''ord'', ''pow'', ''print'', ''property'', ''quit'',
     ''range'', ''repr'', ''reversed'', ''round'', ''set'', ''setattr'', ''slice'',
     ''sorted'', ''staticmethod'', ''str'', ''sum'', ''super'', ''tuple'', ''type'',
     ''vars'', ''zip'', ''__build_class__'', ''__import__'']"

definition builtin_constants :: "string list" where
  "builtin_constants =
    [''Ellipsis'', ''NotImplemented'', ''__debug__'', ''__doc__'', ''__loader__'',
     ''__name__'', ''__package__'', ''__spec__'']"

definition builtin_exceptions :: "string list" where
  "builtin_exceptions =
    [''ArithmeticError'', ''AssertionError'', ''AttributeError'', ''BaseException'',
     ''BaseExceptionGroup'', ''BlockingIOError'', ''BrokenPipeError'', ''BufferError'',
     ''BytesWarning'', ''ChildProcessError'', ''ConnectionAbortedError'',
     ''ConnectionError'', ''ConnectionRefusedError'', ''ConnectionResetError'',
     ''DeprecationWarning'', ''EOFError'', ''EncodingWarning'', ''EnvironmentError'',
     ''Exception'', ''ExceptionGroup'', ''FileExistsError'', ''FileNotFoundError'',
     ''FloatingPointError'', ''FutureWarning'', ''GeneratorExit'', ''IOError'',
     ''ImportError'', ''ImportWarning'', ''IndentationError'', ''IndexError'',
     ''InterruptedError'', ''IsADirectoryError'', ''KeyError'', ''KeyboardInterrupt'',
     ''LookupError'', ''MemoryError'', ''ModuleNotFoundError'', ''NameError'',
     ''NotADirectoryError'', ''NotImplementedError'', ''OSError'', ''OverflowError'',
     ''PendingDeprecationWarning'', ''PermissionError'', ''ProcessLookupError'',
     ''RecursionError'', ''ReferenceError'', ''ResourceWarning'', ''RuntimeError'',
     ''RuntimeWarning'', ''StopAsyncIteration'', ''StopIteration'', ''SyntaxError'',
     ''SyntaxWarning'', ''SystemError'', ''SystemExit'', ''TabError'', ''TimeoutError'',
     ''TypeError'', ''UnboundLocalError'', ''UnicodeDecodeError'', ''UnicodeEncodeError'',
     ''UnicodeError'', ''UnicodeTranslateError'', ''UnicodeWarning'', ''UserWarning'',
     ''ValueError'', ''Warning'', ''ZeroDivisionError'']"

definition builtin_names :: "string list" where
  "builtin_names = builtin_functions @ builtin_constants @ builtin_exceptions"

definition builtins :: namespace where
  "builtins n = (if n \<in> set builtin_names then Some (VBuiltin n) else None)"

subsection \<open>Lexer\<close>

text \<open>
  Tokens of the fragment: identifiers, decimal integers, the operators \<^verbatim>\<open>+ - *\<close>,
  parentheses, the comma, the keywords \<^verbatim>\<open>or\<close>, \<^verbatim>\<open>and\<close>, \<^verbatim>\<open>None\<close> and the
  assignment-expression operator \<^verbatim>\<open>:=\<close>.
\<close>

datatype token =
    NAME string
  | NUMBER int
  | PLUS
  | MINUS
  | STAR
  | LPAREN
  | RPAREN
  | COMMA
  | KW_OR
  | KW_AND
  | KW_NONE
  | WALRUS

definition ident_start :: "char \<Rightarrow> bool" where
  "ident_start c \<longleftrightarrow>
     c \<in> set ''abcdefghijklmnopqrstuvwxyzABCDEFGHIJKLMNOPQRSTUVWXYZ_''"

definition digit :: "char \<Rightarrow> bool" where
  "digit c \<longleftrightarrow> c \<in> set ''0123456789''"

definition ident_char :: "char \<Rightarrow> bool" where
  "ident_char c \<longleftrightarrow> ident_start c \<or> digit c"

text \<open>
  The keywords of Python 3. \<^verbatim>\<open>__debug__\<close> is no keyword, but the compiler replaces it
  by a constant and refuses to assign to it, so the lexer treats it like the keywords it
  does not cover.
\<close>

definition kwlist :: "string list" where
  "kwlist =
    [''False'', ''None'', ''True'', ''and'', ''as'', ''assert'', ''async'', ''await'',
     ''break'', ''class'', ''continue'', ''def'', ''del'', ''elif'', ''else'', ''except'',
     ''finally'', ''for'', ''from'', ''global'', ''if'', ''import'', ''in'', ''is'',
     ''lambda'', ''nonlocal'', ''not'', ''or'', ''pass'', ''raise'', ''return'', ''try'',
     ''while'', ''with'', ''yield'']"

definition word_token :: "string \<Rightarrow> token option" where
  "word_token w =
     (if w = ''or'' then Some KW_OR
      else if w = ''and'' then Some KW_AND
      else if w = ''None'' then Some KW_NONE
      else if w \<in> set kwlist \<or> w = ''__debug__'' then None
      else Some (NAME w))"

definition digit_value :: "char \<Rightarrow> int" where
  "digit_value c = int (of_char c) - 48"

definition decimal :: "string \<Rightarrow> int" where
  "decimal ds = foldl (\<lambda>n c. 10 * n + digit_value c) 0 ds"

text \<open>
  \<open>lex\<close> returns \<open>None\<close> when the string leaves the fragment: a character outside the
  token alphabet, an uncovered keyword, \<^verbatim>\<open>**\<close>, a lone colon, a number with a leading
  zero or followed directly by a letter, or a literal of more than 4300 digits (the
  interpreter's default limit for converting digit strings). Spaces and tabs separate
  tokens; \<^verbatim>\<open>eval\<close> itself strips them at the front of the string.
\<close>

function lex :: "string \<Rightarrow> token list option" where
  "lex [] = Some []"
| "lex (c # cs) =
     (if c = CHR '' '' \<or> c = CHR 0x09 then lex cs
      else if ident_start c then
        (case word_token (c # takeWhile ident_char cs) of
           None \<Rightarrow> None
         | Some t \<Rightarrow> map_option ((#) t) (lex (dropWhile ident_char cs)))
      else if digit c then
        (if (c = CHR ''0'' \<and> takeWhile digit cs \<noteq> [])
            \<or> (case dropWhile digit cs of [] \<Rightarrow> False | d # _ \<Rightarrow> ident_char d)
            \<or> 4300 < Suc (length (takeWhile digit cs))
         then None
         else map_option ((#) (NUMBER (decimal (c # takeWhile digit cs))))
                (lex (dropWhile digit cs)))
      else if c = CHR ''+'' then map_option ((#) PLUS) (lex cs)
      else if c = CHR ''-'' then map_option ((#) MINUS) (lex cs)
      else if c = CHR ''*'' then
        (case cs of
           [] \<Rightarrow> Some [STAR]
         | d # _ \<Rightarrow> if d = CHR ''*'' then None else map_option ((#) STAR) (lex cs))
      else if c = CHR ''('' then map_option ((#) LPAREN) (lex cs)
      else if c = CHR '')'' then map_option ((#) RPAREN) (lex cs)
      else if c = CHR '','' then map_option ((#) COMMA) (lex cs)
      else if c = CHR '':'' then
        (case cs of
           [] \<Rightarrow> None
         | d # ds \<Rightarrow> if d = CHR ''='' then map_option ((#) WALRUS) (lex ds) else None)
      else None)"
  by pat_completeness auto
termination
  by (relation "measure length") (auto intro: le_imp_less_Suc length_dropWhile_le)

subsection \<open>Parser\<close>

text \<open>
  The abstract syntax, with the node names of Python's \<^verbatim>\<open>ast\<close> module.
\<close>

datatype operator = Add | Sub | Mult

datatype unaryop = UAdd | USub

datatype boolop = And | Or

datatype expr =
    Name string
  | Constant val
  | BinOp expr operator expr
  | UnaryOp unaryop expr
  | BoolOp boolop expr expr
  | Call expr "expr list"
  | NamedExpr string expr

text \<open>
  A parse yields an expression and the tokens left, a syntax error, or \<open>PUnsupported\<close>
  when the tokens leave the fragment. \<open>PSyntaxError\<close> is answered in one situation
  only, where the interpreter is sure to raise it: the tokens end where an operand, an
  argument or a closing parenthesis has to follow. Every other failure is
  \<open>PUnsupported\<close>.
\<close>

datatype 'a presult =
    POk 'a "token list"
  | PSyntaxError
  | PUnsupported

fun pbind :: "'a presult \<Rightarrow> ('a \<Rightarrow> token list \<Rightarrow> 'b presult) \<Rightarrow> 'b presult" where
  "pbind (POk x ts) k = k x ts"
| "pbind PSyntaxError k = PSyntaxError"
| "pbind PUnsupported k = PUnsupported"

fun close_paren :: "expr presult \<Rightarrow> expr presult" where
  "close_paren (POk e []) = PSyntaxError"
| "close_paren (POk e (RPAREN # ts)) = POk e ts"
| "close_paren (POk e (t # ts)) = PUnsupported"
| "close_paren PSyntaxError = PSyntaxError"
| "close_paren PUnsupported = PUnsupported"

fun walrus_target :: "token list \<Rightarrow> (string \<times> token list) option" where
  "walrus_target (NAME n # WALRUS # ts) = Some (n, ts)"
| "walrus_target ts = None"

text \<open>
  Binary operators with their binding strength, weakest first as in the grammar:
  \<^verbatim>\<open>or\<close>, \<^verbatim>\<open>and\<close>, the sums, the product. All associate to the left.
\<close>

fun binary :: "token \<Rightarrow> (nat \<times> (expr \<Rightarrow> expr \<Rightarrow> expr)) option" where
  "binary KW_OR = Some (1, BoolOp Or)"
| "binary KW_AND = Some (2, BoolOp And)"
| "binary PLUS = Some (3, \<lambda>l r. BinOp l Add r)"
| "binary MINUS = Some (3, \<lambda>l r. BinOp l Sub r)"
| "binary STAR = Some (4, \<lambda>l r. BinOp l Mult r)"
| "binary t = None"

text \<open>
  What a token list begins with, where an operand is expected: nothing, a sign, an atom
  (a name, a number, \<^verbatim>\<open>None\<close>), an opening parenthesis, or something else.
\<close>

datatype lead =
    LEnd
  | LSign unaryop "token list"
  | LAtom expr "token list"
  | LOpen "token list"
  | LOther

fun lead_of :: "token list \<Rightarrow> lead" where
  "lead_of [] = LEnd"
| "lead_of (PLUS # ts) = LSign UAdd ts"
| "lead_of (MINUS # ts) = LSign USub ts"
| "lead_of (NAME n # ts) = LAtom (Name n) ts"
| "lead_of (NUMBER i # ts) = LAtom (Constant (VInt i)) ts"
| "lead_of (KW_NONE # ts) = LAtom (Constant VNone) ts"
| "lead_of (LPAREN # ts) = LOpen ts"
| "lead_of (t # ts) = LOther"

text \<open>What follows an atom: a call without arguments, a call with arguments, or no call.\<close>

datatype trailer =
    TCallEmpty "token list"
  | TCall "token list"
  | TNone

definition trailer_of :: "token list \<Rightarrow> trailer" where
  "trailer_of ts =
     (case ts of
        [] \<Rightarrow> TNone
      | t # ts' \<Rightarrow>
          if t \<noteq> LPAREN then TNone
          else (case ts' of
                  [] \<Rightarrow> TCall ts'
                | u # ts'' \<Rightarrow> if u = RPAREN then TCallEmpty ts'' else TCall ts'))"

text \<open>What follows an argument of a call.\<close>

datatype argsep =
    AEnd
  | AClose "token list"
  | AComma "token list"
  | AOther

fun argsep_of :: "token list \<Rightarrow> argsep" where
  "argsep_of [] = AEnd"
| "argsep_of (RPAREN # ts) = AClose ts"
| "argsep_of (COMMA # ts) = AComma ts"
| "argsep_of (t # ts) = AOther"

text \<open>
  Recursive descent with precedence climbing. The first argument is fuel: it bounds the
  depth of the descent and the length of operator chains, and running out of it is
  \<open>PUnsupported\<close>. \<open>parse_expr f p\<close> reads an expression whose operators bind at
  least as strongly as \<open>p\<close>; \<open>parse_unary\<close> reads signs and an atom or a
  parenthesised expression or assignment expression; \<open>parse_trailers\<close> reads the
  calls that follow it.
\<close>

function (sequential) parse_expr :: "nat \<Rightarrow> nat \<Rightarrow> token list \<Rightarrow> expr presult"
  and parse_rest :: "nat \<Rightarrow> nat \<Rightarrow> expr \<Rightarrow> token list \<Rightarrow> expr presult"
  and parse_unary :: "nat \<Rightarrow> token list \<Rightarrow> expr presult"
  and parse_trailers :: "nat \<Rightarrow> expr \<Rightarrow> token list \<Rightarrow> expr presult"
  and parse_args :: "nat \<Rightarrow> token list \<Rightarrow> expr list presult"
  and arg_next :: "nat \<Rightarrow> expr \<Rightarrow> token list \<Rightarrow> expr list presult"
where
  "parse_expr 0 p ts = PUnsupported"
| "parse_expr (Suc f) p ts = pbind (parse_unary f ts) (parse_rest f p)"
| "parse_rest 0 p l ts = PUnsupported"
| "parse_rest (Suc f) p l ts =
     (case ts of
        [] \<Rightarrow> POk l []
      | t # ts' \<Rightarrow>
          (case binary t of
             None \<Rightarrow> POk l ts
           | Some (q, node) \<Rightarrow>
               if q < p then POk l ts
               else pbind (parse_expr f (Suc q) ts') (\<lambda>r. parse_rest f p (node l r))))"
| "parse_unary 0 ts = PUnsupported"
| "parse_unary (Suc f) ts =
     (case lead_of ts of
        LEnd \<Rightarrow> PSyntaxError
      | LSign op ts' \<Rightarrow> pbind (parse_unary f ts') (\<lambda>e. POk (UnaryOp op e))
      | LAtom e ts' \<Rightarrow> parse_trailers f e ts'
      | LOpen ts' \<Rightarrow>
          (case walrus_target ts' of
             Some (n, ts'') \<Rightarrow>
               pbind (close_paren (parse_expr f 0 ts''))
                 (\<lambda>e. parse_trailers f (NamedExpr n e))
           | None \<Rightarrow> pbind (close_paren (parse_expr f 0 ts')) (parse_trailers f))
      | LOther \<Rightarrow> PUnsupported)"
| "parse_trailers 0 e ts = PUnsupported"
| "parse_trailers (Suc f) e ts =
     (case trailer_of ts of
        TCallEmpty ts' \<Rightarrow> parse_trailers f (Call e []) ts'
      | TCall ts' \<Rightarrow> pbind (parse_args f ts') (\<lambda>args. parse_trailers f (Call e args))
      | TNone \<Rightarrow> POk e ts)"
| "parse_args 0 ts = PUnsupported"
| "parse_args (Suc f) ts = pbind (parse_expr f 0 ts) (arg_next f)"
| "arg_next 0 e ts = PUnsupported"
| "arg_next (Suc f) e ts =
     (case argsep_of ts of
        AEnd \<Rightarrow> PSyntaxError
      | AClose ts' \<Rightarrow> POk [e] ts'
      | AComma ts' \<Rightarrow> pbind (parse_args f ts') (\<lambda>es. POk (e # es))
      | AOther \<Rightarrow> PUnsupported)"
  by pat_completeness auto
termination
  by (relation "measure (\<lambda>x. case x of
        Inl (Inl (f, p, ts)) \<Rightarrow> f
      | Inl (Inr (Inl (f, p, l, ts))) \<Rightarrow> f
      | Inl (Inr (Inr (f, ts))) \<Rightarrow> f
      | Inr (Inl (f, e, ts)) \<Rightarrow> f
      | Inr (Inr (Inl (f, ts))) \<Rightarrow> f
      | Inr (Inr (Inr (f, e, ts))) \<Rightarrow> f)") auto

text \<open>
  The fuel is fixed, far below the interpreter's own limits on nesting (200 open
  parentheses) and on the depth of the syntax tree it compiles.
\<close>

definition parse_fuel :: nat where
  "parse_fuel = 100"

text \<open>
  A string is one expression when nothing follows it. Tokens left over (a top-level
  comma would make a tuple) are outside the fragment.
\<close>

definition parse :: "string \<Rightarrow> expr presult" where
  "parse source =
     (case lex source of
        None \<Rightarrow> PUnsupported
      | Some ts \<Rightarrow>
          (case parse_expr parse_fuel 0 ts of
             POk e [] \<Rightarrow> POk e []
           | POk e (t # rest) \<Rightarrow> PUnsupported
           | PSyntaxError \<Rightarrow> PSyntaxError
           | PUnsupported \<Rightarrow> PUnsupported))"

subsection \<open>Evaluator\<close>

text \<open>
  Operators and calls answer \<open>Some (Inr v)\<close> for a value, \<open>Some (Inl e)\<close> for an
  exception and \<open>None\<close> where the model does not say. Integers are unbounded, as
  Python's are.
\<close>

fun plain :: "val \<Rightarrow> bool" where
  "plain (VInt i) = True"
| "plain (VStr s) = True"
| "plain VNone = True"
| "plain v = False"

fun binop_apply :: "operator \<Rightarrow> val \<Rightarrow> val \<Rightarrow> (exc + val) option" where
  "binop_apply Add (VInt x) (VInt y) = Some (Inr (VInt (x + y)))"
| "binop_apply Add (VStr s) (VStr t) = Some (Inr (VStr (s @ t)))"
| "binop_apply Sub (VInt x) (VInt y) = Some (Inr (VInt (x - y)))"
| "binop_apply Mult (VInt x) (VInt y) = Some (Inr (VInt (x * y)))"
| "binop_apply Mult (VStr s) (VInt y) = None"
| "binop_apply Mult (VInt x) (VStr t) = None"
| "binop_apply op a b = (if plain a \<and> plain b then Some (Inl TypeError) else None)"

fun unaryop_apply :: "unaryop \<Rightarrow> val \<Rightarrow> (exc + val) option" where
  "unaryop_apply UAdd (VInt x) = Some (Inr (VInt x))"
| "unaryop_apply USub (VInt x) = Some (Inr (VInt (- x)))"
| "unaryop_apply op a = (if plain a then Some (Inl TypeError) else None)"

text \<open>The built-in functions whose behaviour is written out, on integers.\<close>

definition modelled_functions :: "string list" where
  "modelled_functions = [''max'', ''min'', ''abs'']"

fun truthy :: "val \<Rightarrow> bool option" where
  "truthy (VInt i) = Some (i \<noteq> 0)"
| "truthy (VStr s) = Some (s \<noteq> [])"
| "truthy VNone = Some False"
| "truthy (VBuiltin n) = (if n \<in> set modelled_functions then Some True else None)"
| "truthy VBuiltinsModule = Some True"
| "truthy (VOther k) = None"

fun int_of :: "val \<Rightarrow> int option" where
  "int_of (VInt i) = Some i"
| "int_of v = None"

fun ints_of :: "val list \<Rightarrow> int list option" where
  "ints_of [] = Some []"
| "ints_of (v # vs) =
     (case int_of v of
        None \<Rightarrow> None
      | Some i \<Rightarrow> map_option ((#) i) (ints_of vs))"

text \<open>
  \<^verbatim>\<open>max\<close> and \<^verbatim>\<open>min\<close>: no argument is a TypeError, so is a single integer or
  \<^verbatim>\<open>None\<close> (not iterable); two or more integers give the extremum.
\<close>

fun extremum :: "(int \<Rightarrow> int \<Rightarrow> int) \<Rightarrow> val list \<Rightarrow> (exc + val) option" where
  "extremum pick [] = Some (Inl TypeError)"
| "extremum pick [VInt i] = Some (Inl TypeError)"
| "extremum pick [VNone] = Some (Inl TypeError)"
| "extremum pick [v] = None"
| "extremum pick (v # w # vs) =
     (case ints_of (v # w # vs) of
        None \<Rightarrow> None
      | Some is \<Rightarrow> Some (Inr (VInt (foldl pick (hd is) (tl is)))))"

fun py_abs :: "val list \<Rightarrow> (exc + val) option" where
  "py_abs [VInt i] = Some (Inr (VInt \<bar>i\<bar>))"
| "py_abs [v] = (if plain v then Some (Inl TypeError) else None)"
| "py_abs vs = Some (Inl TypeError)"

fun call_value :: "val \<Rightarrow> val list \<Rightarrow> (exc + val) option" where
  "call_value (VBuiltin n) vs =
     (if n = ''max'' then extremum max vs
      else if n = ''min'' then extremum min vs
      else if n = ''abs'' then py_abs vs
      else None)"
| "call_value (VOther k) vs = None"
| "call_value v vs = Some (Inl TypeError)"

fun of_result :: "(exc + val) option \<Rightarrow> namespace \<Rightarrow> val outcome" where
  "of_result None L = Unmodelled"
| "of_result (Some (Inl e)) L = Raises e L"
| "of_result (Some (Inr v)) L = Returns v L"

fun obind :: "'a outcome \<Rightarrow> ('a \<Rightarrow> namespace \<Rightarrow> 'b outcome) \<Rightarrow> 'b outcome" where
  "obind (Returns v L) k = k v L"
| "obind (Raises e L) k = Raises e L"
| "obind Unmodelled k = Unmodelled"

text \<open>
  Name resolution of code run by \<^verbatim>\<open>eval\<close>: the locals, then the globals, then the
  built-in namespace the globals name under \<^verbatim>\<open>__builtins__\<close>; a name found nowhere
  raises NameError.
\<close>

definition load_name :: "namespace \<Rightarrow> namespace \<Rightarrow> string \<Rightarrow> val outcome" where
  "load_name G L n =
     (case L n of
        Some v \<Rightarrow> Returns v L
      | None \<Rightarrow>
          (case G n of
             Some v \<Rightarrow> Returns v L
           | None \<Rightarrow>
               if G ''__builtins__'' = Some VBuiltinsModule then
                 (case builtins n of
                    Some v \<Rightarrow> Returns v L
                  | None \<Rightarrow> Raises (NameError n) L)
               else Unmodelled))"

text \<open>
  Evaluation threads the locals: operands and arguments are evaluated left to right,
  \<^verbatim>\<open>or\<close> and \<^verbatim>\<open>and\<close> evaluate their right operand only when the left one does
  not decide, and an assignment expression stores its value in the locals.
\<close>

fun eval_expr :: "namespace \<Rightarrow> expr \<Rightarrow> namespace \<Rightarrow> val outcome"
  and eval_args :: "namespace \<Rightarrow> expr list \<Rightarrow> namespace \<Rightarrow> val list outcome"
where
  "eval_expr G (Name n) L = load_name G L n"
| "eval_expr G (Constant v) L = Returns v L"
| "eval_expr G (BinOp l op r) L =
     obind (eval_expr G l L) (\<lambda>a L1.
       obind (eval_expr G r L1) (\<lambda>b L2. of_result (binop_apply op a b) L2))"
| "eval_expr G (UnaryOp op e) L =
     obind (eval_expr G e L) (\<lambda>a L1. of_result (unaryop_apply op a) L1)"
| "eval_expr G (BoolOp op l r) L =
     obind (eval_expr G l L) (\<lambda>a L1.
       case truthy a of
         None \<Rightarrow> Unmodelled
       | Some t \<Rightarrow> if (op = Or) = t then Returns a L1 else eval_expr G r L1)"
| "eval_expr G (Call f args) L =
     obind (eval_expr G f L) (\<lambda>fv L1.
       obind (eval_args G args L1) (\<lambda>vs L2. of_result (call_value fv vs) L2))"
| "eval_expr G (NamedExpr n e) L =
     obind (eval_expr G e L) (\<lambda>v L1. Returns v (L1(n \<mapsto> v)))"
| "eval_args G [] L = Returns [] L"
| "eval_args G (e # es) L =
     obind (eval_expr G e L) (\<lambda>v L1.
       obind (eval_args G es L1) (\<lambda>vs L2. Returns (v # vs) L2))"

subsection \<open>Python's \<^verbatim>\<open>eval\<close>\<close>

text \<open>
  The frame \<^verbatim>\<open>eval\<close> is called from: where the globals or the locals are not
  passed, \<^verbatim>\<open>eval\<close> takes those of this frame.
\<close>

record frame =
  f_globals :: namespace
  f_locals :: namespace

text \<open>
  \<^verbatim>\<open>eval(source, globals=None, locals=None)\<close>. Without globals both mappings are the
  calling frame's; with globals only, the locals are the globals. A globals mapping
  without the key \<^verbatim>\<open>__builtins__\<close> gets the built-in module under it. The source is
  compiled first, so a syntax error is raised before anything is evaluated.
\<close>

definition py_eval ::
  "frame \<Rightarrow> string \<Rightarrow> namespace option \<Rightarrow> namespace option \<Rightarrow> val outcome" where
  "py_eval fr source globals locals =
     (let g = (case globals of None \<Rightarrow> f_globals fr | Some g0 \<Rightarrow> g0);
          G = (if g ''__builtins__'' = None then g(''__builtins__'' \<mapsto> VBuiltinsModule) else g);
          L = (case locals of
                 Some l \<Rightarrow> l
               | None \<Rightarrow> (case globals of None \<Rightarrow> f_locals fr | Some g0 \<Rightarrow> G))
      in case parse source of
           PSyntaxError \<Rightarrow> Raises SyntaxError L
         | PUnsupported \<Rightarrow> Unmodelled
         | POk e rest \<Rightarrow> eval_expr G e L)"

subsection \<open>The function of the repository\<close>

text \<open>
  \<^verbatim>\<open>return eval(code, {"__builtins__": __builtins__}, context_as_scope)\<close>.

  \<open>module_globals\<close> is the global namespace of the module evalInScope.py at the time
  of the call: the body reads the name \<^verbatim>\<open>__builtins__\<close> from it (the interpreter
  binds it there to the built-in module), and it is the globals of the frame
  \<^verbatim>\<open>eval\<close> is called from, whose locals are the two parameters. The outcome carries
  the caller's mapping as the call leaves it.
\<close>

definition eval_in_scope :: "namespace \<Rightarrow> string \<Rightarrow> namespace \<Rightarrow> val outcome" where
  "eval_in_scope module_globals code context_as_scope =
     (case module_globals ''__builtins__'' of
        None \<Rightarrow> Raises (NameError ''__builtins__'') context_as_scope
      | Some b \<Rightarrow>
          py_eval
            \<lparr>f_globals = module_globals,
             f_locals = [''code'' \<mapsto> VStr code, ''context_as_scope'' \<mapsto> VOther 0]\<rparr>
            code
            (Some [''__builtins__'' \<mapsto> b])
            (Some context_as_scope))"

text \<open>
  The module's globals when the file runs as a script and reaches the example calls at
  its end: of the names the interpreter sets, the module's name and the built-in module,
  and the function itself (an object the model does not look into).
\<close>

definition script_globals :: namespace where
  "script_globals =
     [''__name__'' \<mapsto> VStr ''__main__'',
      ''__builtins__'' \<mapsto> VBuiltinsModule,
      ''eval_in_scope'' \<mapsto> VOther 1]"

subsection \<open>Vocabulary of the properties\<close>

text \<open>
  A string that the lexer reads as one identifier: a letter or underscore followed by
  letters, digits and underscores, no keyword and not \<^verbatim>\<open>__debug__\<close>.
\<close>

definition is_name :: "string \<Rightarrow> bool" where
  "is_name n \<longleftrightarrow>
     (case n of [] \<Rightarrow> False | c # cs \<Rightarrow> ident_start c \<and> list_all ident_char cs)
     \<and> n \<notin> set kwlist \<and> n \<noteq> ''__debug__''"


fun assigned :: "expr \<Rightarrow> string set" where
  "assigned (Name n) = {}"
| "assigned (Constant v) = {}"
| "assigned (BinOp l op r) = assigned l \<union> assigned r"
| "assigned (UnaryOp op e) = assigned e"
| "assigned (BoolOp op l r) = assigned l \<union> assigned r"
| "assigned (Call f args) = assigned f \<union> \<Union> (set (map assigned args))"
| "assigned (NamedExpr n e) = insert n (assigned e)"

fun strict :: "expr \<Rightarrow> bool" where
  "strict (Name n) = True"
| "strict (Constant v) = True"
| "strict (BinOp l op r) = (strict l \<and> strict r)"
| "strict (UnaryOp op e) = strict e"
| "strict (BoolOp op l r) = False"
| "strict (Call f args) = (strict f \<and> list_all strict args)"
| "strict (NamedExpr n e) = strict e"


definition assigns :: "string \<Rightarrow> bool" where
  "assigns source = (case parse source of POk e rest \<Rightarrow> assigned e \<noteq> {} | _ \<Rightarrow> False)"

definition short_circuits :: "string \<Rightarrow> bool" where
  "short_circuits source = (case parse source of POk e rest \<Rightarrow> \<not> strict e | _ \<Rightarrow> False)"

section \<open>Properties\<close>

subsection \<open>The lexer and the parser on identifiers\<close>

lemma ident_start_not_blank: "ident_start c \<Longrightarrow> c \<noteq> CHR '' '' \<and> c \<noteq> CHR 0x09"
  by (auto simp: ident_start_def)

lemma word_token_name: "is_name n \<Longrightarrow> word_token n = Some (NAME n)"
  by (auto simp: is_name_def word_token_def kwlist_def)

lemma lex_name:
  assumes "is_name n" and "case rest of [] \<Rightarrow> True | d # ds \<Rightarrow> \<not> ident_char d"
  shows "lex (n @ rest) = map_option ((#) (NAME n)) (lex rest)"
proof -
  from assms(1) obtain c cs where n: "n = c # cs" and c: "ident_start c"
    and cs: "list_all ident_char cs"
    by (auto simp: is_name_def split: list.splits)
  have tw: "takeWhile ident_char (cs @ rest) = cs"
    using cs assms(2)
    by (cases rest) (auto simp: list_all_iff takeWhile_append2 takeWhile_eq_all_conv)
  have dw: "dropWhile ident_char (cs @ rest) = rest"
    using cs assms(2) by (cases rest) (auto simp: list_all_iff dropWhile_append2)
  have wt: "word_token (c # cs) = Some (NAME n)"
    using word_token_name[OF assms(1)] n by simp
  show ?thesis
    using c ident_start_not_blank[OF c] by (simp add: n tw dw wt)
qed

lemma lex_name_only: "is_name n \<Longrightarrow> lex n = Some [NAME n]"
  using lex_name[of n "[]"] by simp

lemma lex_blank: "lex (CHR '' '' # cs) = lex cs"
  by simp

lemma lex_plus: "lex (CHR ''+'' # cs) = map_option ((#) PLUS) (lex cs)"
  by (simp add: ident_start_def digit_def)

lemma lex_sum:
  assumes "is_name n1" and "is_name n2"
  shows "lex (n1 @ '' + '' @ n2) = Some [NAME n1, PLUS, NAME n2]"
proof -
  have "lex (n1 @ '' + '' @ n2) = map_option ((#) (NAME n1)) (lex ('' + '' @ n2))"
    by (rule lex_name[OF assms(1)]) (simp add: ident_char_def ident_start_def digit_def)
  also have "lex ('' + '' @ n2) = map_option ((#) PLUS) (lex n2)"
    using lex_blank lex_plus by simp
  finally show ?thesis by (simp add: lex_name_only[OF assms(2)])
qed


lemma parse_name: "is_name n \<Longrightarrow> parse n = POk (Name n) []"
  by (simp add: parse_def lex_name_only parse_fuel_def eval_nat_numeral trailer_of_def)

lemma parse_sum:
  assumes "is_name n1" and "is_name n2"
  shows "parse (n1 @ '' + '' @ n2) = POk (BinOp (Name n1) Add (Name n2)) []"
  unfolding parse_def lex_sum[OF assms]
  by (simp add: parse_fuel_def eval_nat_numeral trailer_of_def)


subsection \<open>The call as an evaluation of the parsed expression\<close>

lemma eval_in_scope_unfold:
  "G ''__builtins__'' = Some b \<Longrightarrow>
   eval_in_scope G code scope =
     (case parse code of
        PSyntaxError \<Rightarrow> Raises SyntaxError scope
      | PUnsupported \<Rightarrow> Unmodelled
      | POk e rest \<Rightarrow> eval_expr [''__builtins__'' \<mapsto> b] e scope)"
  by (simp add: eval_in_scope_def py_eval_def Let_def)

subsection \<open>Evaluation and the locals\<close>

lemma of_result_final: "final_scope (of_result r L) = Some L' \<Longrightarrow> L' = L"
  by (induction r L rule: of_result.induct) simp_all

lemma load_name_final: "final_scope (load_name G L n) = Some L' \<Longrightarrow> L' = L"
  by (auto simp: load_name_def split: option.splits if_splits)

lemma obind_final:
  "final_scope (obind m k) = Some L' \<Longrightarrow>
   \<exists>L1. final_scope m = Some L1 \<and> ((\<exists>e. m = Raises e L1 \<and> L' = L1) \<or> (\<exists>v. m = Returns v L1 \<and> final_scope (k v L1) = Some L'))"
  by (cases m) auto


lemma eval_keeps:
  "final_scope (eval_expr G e L) = Some L' \<Longrightarrow> m \<notin> assigned e \<Longrightarrow> L' m = L m"
  "final_scope (eval_args G es L) = Some L' \<Longrightarrow> (\<forall>a \<in> set es. m \<notin> assigned a) \<Longrightarrow> L' m = L m"
proof (induction G e L and G es L arbitrary: L' and L' rule: eval_expr_eval_args.induct)
  case (1 G n L)
  then show ?case by (auto dest: load_name_final)
next
  case (2 G v L)
  then show ?case by simp
next
  case (3 G l op r L)
  from 3(3) obtain L1 where a: "final_scope (eval_expr G l L) = Some L1"
    and b: "(\<exists>e. eval_expr G l L = Raises e L1 \<and> L' = L1) \<or>
       (\<exists>v. eval_expr G l L = Returns v L1 \<and>
          final_scope (obind (eval_expr G r L1) (\<lambda>b L2. of_result (binop_apply op v b) L2)) = Some L')"
    by (auto dest!: obind_final)
  have l: "L1 m = L m" using 3(1)[OF a] 3(4) by simp
  from b show ?case
  proof
    assume "\<exists>e. eval_expr G l L = Raises e L1 \<and> L' = L1"
    then show ?thesis using l by auto
  next
    assume "\<exists>v. eval_expr G l L = Returns v L1 \<and>
          final_scope (obind (eval_expr G r L1) (\<lambda>b L2. of_result (binop_apply op v b) L2)) = Some L'"
    then obtain v where
      c: "final_scope (obind (eval_expr G r L1) (\<lambda>b L2. of_result (binop_apply op v b) L2)) = Some L'"
      by blast
    from obind_final[OF c] obtain L2 where d: "final_scope (eval_expr G r L1) = Some L2" and e: "L' = L2"
      by (auto dest: of_result_final)
    have "L2 m = L1 m" using 3(2)[OF d] 3(4) by simp
    then show ?thesis using l e by simp
  qed
next
  case (4 G op e L)
  from obind_final[OF 4(2)[simplified]] obtain L1 where a: "final_scope (eval_expr G e L) = Some L1" and "L' = L1"
    by (auto dest: of_result_final)
  then show ?case using 4(1)[OF a] 4(3) by simp
next
  case (5 G op l r L)
  from obind_final[OF 5(3)[simplified]] obtain L1 where a: "final_scope (eval_expr G l L) = Some L1"
    and b: "L' = L1 \<or> (\<exists>v t. truthy v = Some t \<and> (op = Or) \<noteq> t
               \<and> final_scope (eval_expr G r L1) = Some L')"
    by (auto split: option.splits if_splits)
  have l: "L1 m = L m" using 5(1)[OF a] 5(4) by simp
  from b show ?case
  proof
    assume "L' = L1" then show ?thesis using l by simp
  next
    assume "\<exists>v t. truthy v = Some t \<and> (op = Or) \<noteq> t
               \<and> final_scope (eval_expr G r L1) = Some L'"
    then obtain v t where t: "truthy v = Some t" and u: "(op = Or) \<noteq> t"
      and c: "final_scope (eval_expr G r L1) = Some L'"
      by blast
    show ?thesis using 5(2)[OF t u c] 5(4) l by simp
  qed
next
  case (6 G f args L)
  from obind_final[OF 6(3)[simplified]] obtain L1 where a: "final_scope (eval_expr G f L) = Some L1"
    and b: "L' = L1 \<or> (\<exists>fv. final_scope (obind (eval_args G args L1) (\<lambda>vs L2. of_result (call_value fv vs) L2)) = Some L')"
    by auto
  have l: "L1 m = L m" using 6(1)[OF a] 6(4) by simp
  from b show ?case
  proof
    assume "L' = L1" then show ?thesis using l by simp
  next
    assume "\<exists>fv. final_scope (obind (eval_args G args L1) (\<lambda>vs L2. of_result (call_value fv vs) L2)) = Some L'"
    then obtain fv where c: "final_scope (obind (eval_args G args L1) (\<lambda>vs L2. of_result (call_value fv vs) L2)) = Some L'"
      by blast
    from obind_final[OF c] obtain L2 where d: "final_scope (eval_args G args L1) = Some L2" and e: "L' = L2"
      by (auto dest: of_result_final)
    have "L2 m = L1 m" using 6(2)[OF d] 6(4) by simp
    then show ?thesis using l e by simp
  qed
next
  case (7 G n e L)
  from obind_final[OF 7(2)[simplified]] obtain L1 where a: "final_scope (eval_expr G e L) = Some L1"
    and b: "L' = L1 \<or> (\<exists>v. L' = L1(n \<mapsto> v))"
    by auto
  have l: "L1 m = L m" using 7(1)[OF a] 7(3) by simp
  from b show ?case using l 7(3) by auto
next
  case (8 G L)
  then show ?case by simp
next
  case (9 G e es L)
  from obind_final[OF 9(3)[simplified]] obtain L1 where a: "final_scope (eval_expr G e L) = Some L1"
    and b: "L' = L1 \<or> (\<exists>v. final_scope (obind (eval_args G es L1) (\<lambda>vs L2. Returns (v # vs) L2)) = Some L')"
    by auto
  have l: "L1 m = L m" using 9(1)[OF a] 9(4) by simp
  from b show ?case
  proof
    assume "L' = L1" then show ?thesis using l by simp
  next
    assume "\<exists>v. final_scope (obind (eval_args G es L1) (\<lambda>vs L2. Returns (v # vs) L2)) = Some L'"
    then obtain v where c: "final_scope (obind (eval_args G es L1) (\<lambda>vs L2. Returns (v # vs) L2)) = Some L'"
      by blast
    from obind_final[OF c] obtain L2 where d: "final_scope (eval_args G es L1) = Some L2" and e: "L' = L2"
      by auto
    have "L2 m = L1 m" using 9(2)[OF d] 9(4) by simp
    then show ?thesis using l e by simp
  qed
qed


lemma eval_in_scope_keeps:
  assumes "final_scope (eval_in_scope G code scope) = Some scope'" and "\<not> assigns code"
  shows "scope' = scope"
proof (cases "G ''__builtins__''")
  case None
  with assms show ?thesis by (simp add: eval_in_scope_def)
next
  case (Some b)
  show ?thesis
  proof (cases "parse code")
    case (POk e rest)
    with assms Some have f: "final_scope (eval_expr [''__builtins__'' \<mapsto> b] e scope) = Some scope'"
      and a: "assigned e = {}"
      by (simp_all add: eval_in_scope_unfold assigns_def)
    have "scope' m = scope m" for m
      using eval_keeps(1)[OF f, of m] a by simp
    then show ?thesis by (rule ext)
  next
    case PSyntaxError
    with assms Some show ?thesis by (simp add: eval_in_scope_unfold)
  next
    case PUnsupported
    with assms Some show ?thesis by (simp add: eval_in_scope_unfold)
  qed
qed



subsection \<open>Single names\<close>


lemma eval_in_scope_name:
  assumes "G ''__builtins__'' = Some b" and "is_name n"
  shows "eval_in_scope G n scope = load_name [''__builtins__'' \<mapsto> b] scope n"
  using assms by (simp add: eval_in_scope_unfold parse_name)

subsection \<open>Evaluating concrete calls\<close>

lemmas lex_defs = ident_start_def ident_char_def digit_def word_token_def kwlist_def
  digit_value_def decimal_def

lemmas builtin_defs = builtins_def builtin_names_def builtin_functions_def
  builtin_constants_def builtin_exceptions_def

lemmas run_defs = eval_in_scope_def script_globals_def py_eval_def parse_def parse_fuel_def
  eval_nat_numeral trailer_of_def load_name_def modelled_functions_def

lemma script_builtins: "script_globals ''__builtins__'' = Some VBuiltinsModule"
  by (simp add: script_globals_def)

lemma is_name_examples:
  "is_name ''a''" "is_name ''b''" "is_name ''max''" "is_name ''open''" "is_name ''__builtins__''"
  "is_name ''secret''"
  by (simp_all add: is_name_def lex_defs)


lemma parse_max_call: "parse ''max(x, y)'' = POk (Call (Name ''max'') [Name ''x'', Name ''y'']) []"
  by (simp add: parse_def parse_fuel_def eval_nat_numeral trailer_of_def lex_defs)

lemma parse_max_literals:
  "parse ''max(1, 2)'' = POk (Call (Name ''max'') [Constant (VInt 1), Constant (VInt 2)]) []"
  by (simp add: parse_def parse_fuel_def eval_nat_numeral trailer_of_def lex_defs)

lemma builtins_max: "builtins ''max'' = Some (VBuiltin ''max'')"
  by (simp add: builtin_defs)

lemma max_call:
  assumes "G ''__builtins__'' = Some VBuiltinsModule"
    and "scope ''x'' = Some (VInt a)" and "scope ''y'' = Some (VInt b)" and "scope ''max'' = None"
  shows "eval_in_scope G ''max(x, y)'' scope = Returns (VInt (max a b)) scope"
  using assms eval_in_scope_unfold[of G VBuiltinsModule "''max(x, y)''" scope]
  by (simp add: parse_max_call load_name_def builtins_max)

lemma not_assigns_examples:
  "\<not> assigns ''a + b''" "\<not> assigns ''a + unknown_name''" "\<not> assigns ''a +''"
  "assigns ''(y := 5)''"
  by (simp_all add: assigns_def parse_def parse_fuel_def eval_nat_numeral trailer_of_def lex_defs)

lemma sum_example:
  "eval_in_scope script_globals ''a + b'' [''a'' \<mapsto> VInt 2, ''b'' \<mapsto> VInt 3]
     = Returns (VInt 5) [''a'' \<mapsto> VInt 2, ''b'' \<mapsto> VInt 3]"
  by (simp add: run_defs lex_defs)

lemma unknown_example:
  "eval_in_scope script_globals ''a + unknown_name'' [''a'' \<mapsto> VInt 1]
     = Raises (NameError ''unknown_name'') [''a'' \<mapsto> VInt 1]"
  by (simp add: run_defs lex_defs builtin_defs)

section \<open>The claims\<close>

subsection \<open>C1: unresolved names\<close>




subsection \<open>C2: which names resolve\<close>

text \<open>
  C2 as stated: beyond the scope, only a minimal closed whitelist of built-in operations
  resolves, not the full native built-in namespace, and every name that resolves is a key
  of the scope or in that whitelist. The source passes the built-in module whole:
  \<^verbatim>\<open>__import__\<close> and \<^verbatim>\<open>open\<close> resolve with an empty scope, and so does
  \<^verbatim>\<open>__builtins__\<close>, which is neither a key of the scope nor a built-in name at all (the
  globals dictionary binds it).
\<close>

theorem C2_counterexample:
  "eval_in_scope script_globals ''__import__'' Map.empty = Returns (VBuiltin ''__import__'') Map.empty
   \<and> eval_in_scope script_globals ''open'' Map.empty = Returns (VBuiltin ''open'') Map.empty
   \<and> eval_in_scope script_globals ''__builtins__'' Map.empty = Returns VBuiltinsModule Map.empty
   \<and> ''__builtins__'' \<notin> dom (Map.empty :: namespace)
   \<and> ''__builtins__'' \<notin> set builtin_names"
  by (simp add: run_defs lex_defs builtin_defs)

text \<open>
  C2 as amended: the names that resolve beyond the scope are those of the interpreter's
  full built-in namespace and \<^verbatim>\<open>__builtins__\<close>. An identifier evaluates to the scope's
  value if the scope binds it, else to the built-in module if it is \<^verbatim>\<open>__builtins__\<close>,
  else to the built-in of that name if there is one, and else raises NameError.
\<close>

theorem C2_resolvable_names:
  assumes "G ''__builtins__'' = Some VBuiltinsModule" and "is_name n"
  shows "eval_in_scope G n scope =
     (case scope n of
        Some v \<Rightarrow> Returns v scope
      | None \<Rightarrow>
          if n = ''__builtins__'' then Returns VBuiltinsModule scope
          else if n \<in> set builtin_names then Returns (VBuiltin n) scope
          else Raises (NameError n) scope)"
  using eval_in_scope_name[of G VBuiltinsModule n scope] assms
  by (simp add: load_name_def builtins_def split: option.splits)

theorem C2_resolvable_names_witness:
  "script_globals ''__builtins__'' = Some VBuiltinsModule \<and> is_name ''open''
   \<and> eval_in_scope script_globals ''open'' [''a'' \<mapsto> VInt 1]
       = Returns (VBuiltin ''open'') [''a'' \<mapsto> VInt 1]"
  using C2_resolvable_names[of script_globals "''open''" "[''a'' \<mapsto> VInt 1]"]
    script_builtins is_name_examples(4)
  by (simp add: builtin_defs)

subsection \<open>C3: isolation from the ambient environment\<close>



text \<open>
  What the ambient namespace and the calling frame bind stays invisible: a global of the
  module, the parameters of \<open>eval_in_scope\<close> and the function itself are unknown
  names to the expression. \<^verbatim>\<open>eval\<close> without explicit mappings would see them.
\<close>

lemma ambient_names_invisible:
  "eval_in_scope (script_globals(''secret'' \<mapsto> VInt 7)) ''secret'' Map.empty
     = Raises (NameError ''secret'') Map.empty"
  "eval_in_scope script_globals ''code'' Map.empty = Raises (NameError ''code'') Map.empty"
  "eval_in_scope script_globals ''context_as_scope'' Map.empty
     = Raises (NameError ''context_as_scope'') Map.empty"
  "eval_in_scope script_globals ''eval_in_scope'' Map.empty
     = Raises (NameError ''eval_in_scope'') Map.empty"
  by (simp_all add: run_defs lex_defs builtin_defs)

lemma eval_defaults_see_frame:
  "py_eval \<lparr>f_globals = script_globals(''secret'' \<mapsto> VInt 7),
            f_locals = [''code'' \<mapsto> VStr ''code'']\<rparr> ''secret'' None None
     = Returns (VInt 7) [''code'' \<mapsto> VStr ''code'']"
  "py_eval \<lparr>f_globals = script_globals, f_locals = [''code'' \<mapsto> VStr ''code'']\<rparr> ''code'' None None
     = Returns (VStr ''code'') [''code'' \<mapsto> VStr ''code'']"
  by (simp_all add: run_defs lex_defs builtin_defs)

subsection \<open>C4: the scope shadows the built-ins\<close>



subsection \<open>C5: the sum of two names of the scope\<close>

text \<open>
  C5: for all identifiers \<open>n1\<close>, \<open>n2\<close> that the scope binds to integers \<open>x\<close>,
  \<open>y\<close>, the expression \<^verbatim>\<open>n1 + n2\<close> returns \<open>x + y\<close> and leaves the scope as it
  was; \<^verbatim>\<open>a + b\<close> with 2 and 3 is 5, the first example of the source.
\<close>

theorem C5_sum_of_scope_names:
  assumes "G ''__builtins__'' = Some b" and "is_name n1" and "is_name n2"
    and "scope n1 = Some (VInt x)" and "scope n2 = Some (VInt y)"
  shows "eval_in_scope G (n1 @ '' + '' @ n2) scope = Returns (VInt (x + y)) scope"
  using assms parse_sum[of n1 n2] eval_in_scope_unfold[of G b "n1 @ '' + '' @ n2" scope]
  by (simp add: load_name_def)

theorem C5_sum_of_scope_names_witness:
  "script_globals ''__builtins__'' = Some VBuiltinsModule \<and> is_name ''a'' \<and> is_name ''b''
   \<and> [''a'' \<mapsto> VInt 2, ''b'' \<mapsto> VInt 3] ''a'' = Some (VInt 2)
   \<and> [''a'' \<mapsto> VInt 2, ''b'' \<mapsto> VInt 3] ''b'' = Some (VInt 3)
   \<and> eval_in_scope script_globals ''a + b'' [''a'' \<mapsto> VInt 2, ''b'' \<mapsto> VInt 3]
       = Returns (VInt 5) [''a'' \<mapsto> VInt 2, ''b'' \<mapsto> VInt 3]"
  using C5_sum_of_scope_names[of script_globals VBuiltinsModule "''a''" "''b''"
      "[''a'' \<mapsto> VInt 2, ''b'' \<mapsto> VInt 3]" 2 3]
    script_builtins is_name_examples(1,2)
  by simp

subsection \<open>C6: syntax errors\<close>



subsection \<open>C7: calling a built-in\<close>

text \<open>
  C7: \<^verbatim>\<open>max(x, y)\<close> over integers of the scope returns their maximum, so the result is
  the same when the two values are exchanged (20 for 10 and 20 in either order); with the
  empty scope \<^verbatim>\<open>max(1, 2)\<close> is 2.
\<close>

theorem C7_max_call:
  assumes "G ''__builtins__'' = Some VBuiltinsModule"
  shows "eval_in_scope G ''max(x, y)'' [''x'' \<mapsto> VInt a, ''y'' \<mapsto> VInt b]
           = Returns (VInt (max a b)) [''x'' \<mapsto> VInt a, ''y'' \<mapsto> VInt b]
    \<and> returned (eval_in_scope G ''max(x, y)'' [''x'' \<mapsto> VInt a, ''y'' \<mapsto> VInt b])
        = returned (eval_in_scope G ''max(x, y)'' [''x'' \<mapsto> VInt b, ''y'' \<mapsto> VInt a])
    \<and> eval_in_scope G ''max(1, 2)'' Map.empty = Returns (VInt 2) Map.empty"
proof -
  have m: "eval_in_scope G ''max(x, y)'' [''x'' \<mapsto> VInt c, ''y'' \<mapsto> VInt d]
           = Returns (VInt (max c d)) [''x'' \<mapsto> VInt c, ''y'' \<mapsto> VInt d]" for c d
    using max_call[of G "[''x'' \<mapsto> VInt c, ''y'' \<mapsto> VInt d]" c d] assms by simp
  have l: "eval_in_scope G ''max(1, 2)'' Map.empty = Returns (VInt 2) Map.empty"
    using assms eval_in_scope_unfold[of G VBuiltinsModule "''max(1, 2)''" Map.empty]
    by (simp add: parse_max_literals load_name_def builtins_max)
  show ?thesis using m[of a b] m[of b a] l by (simp add: max.commute)
qed

theorem C7_max_call_witness:
  "script_globals ''__builtins__'' = Some VBuiltinsModule
   \<and> eval_in_scope script_globals ''max(x, y)'' [''x'' \<mapsto> VInt 10, ''y'' \<mapsto> VInt 20]
       = Returns (VInt 20) [''x'' \<mapsto> VInt 10, ''y'' \<mapsto> VInt 20]
   \<and> eval_in_scope script_globals ''max(x, y)'' [''x'' \<mapsto> VInt 20, ''y'' \<mapsto> VInt 10]
       = Returns (VInt 20) [''x'' \<mapsto> VInt 20, ''y'' \<mapsto> VInt 10]
   \<and> eval_in_scope script_globals ''max(1, 2)'' Map.empty = Returns (VInt 2) Map.empty"
  using C7_max_call[of script_globals 10 20] C7_max_call[of script_globals 20 10] script_builtins
  by simp

subsection \<open>C8: no state is kept between calls\<close>



subsection \<open>C9: the scope is not changed\<close>

text \<open>
  C9: after a call with an expression that has no assignment expression, the scope has
  the same keys with the same values as before, whether the call returned or raised.
\<close>

theorem C9_scope_unchanged:
  assumes "\<not> assigns code"
  shows "(eval_in_scope G code scope = Returns v scope' \<longrightarrow> scope' = scope)
    \<and> (eval_in_scope G code scope = Raises x scope' \<longrightarrow> scope' = scope)"
  using eval_in_scope_keeps[of G code scope scope'] assms by auto

theorem C9_scope_unchanged_witness:
  "\<not> assigns ''a + b'' \<and> \<not> assigns ''a + unknown_name''
   \<and> eval_in_scope script_globals ''a + b'' [''a'' \<mapsto> VInt 2, ''b'' \<mapsto> VInt 3]
       = Returns (VInt 5) [''a'' \<mapsto> VInt 2, ''b'' \<mapsto> VInt 3]
   \<and> eval_in_scope script_globals ''a + unknown_name'' [''a'' \<mapsto> VInt 1]
       = Raises (NameError ''unknown_name'') [''a'' \<mapsto> VInt 1]"
  using C9_scope_unchanged[of "''a + b''" script_globals "[''a'' \<mapsto> VInt 2, ''b'' \<mapsto> VInt 3]"
      "VInt 5" "[''a'' \<mapsto> VInt 2, ''b'' \<mapsto> VInt 3]"]
    C9_scope_unchanged[of "''a + unknown_name''" script_globals "[''a'' \<mapsto> VInt 1]"
      "VInt 0" "[''a'' \<mapsto> VInt 1]" "NameError ''unknown_name''"]
    not_assigns_examples(1,2) sum_example unknown_example
  by simp

text \<open>
  The condition is needed: an assignment expression writes to the caller's mapping. And
  the examples at the end of the source share one scope between two calls, the second of
  which finds it as the first did.
\<close>

lemma assignment_changes_scope:
  "eval_in_scope script_globals ''(y := 5)'' Map.empty = Returns (VInt 5) [''y'' \<mapsto> VInt 5]"
  by (simp add: run_defs lex_defs)

lemma script_examples:
  "returned (eval_in_scope script_globals ''a + b + c''
      [''a'' \<mapsto> VInt 11, ''b'' \<mapsto> VInt 22, ''c'' \<mapsto> VInt 33]) = Some (VInt 66)"
  "returned (eval_in_scope script_globals ''b * 2''
      [''a'' \<mapsto> VInt 11, ''b'' \<mapsto> VInt 22, ''c'' \<mapsto> VInt 33]) = Some (VInt 44)"
  by (simp_all add: run_defs lex_defs)

subsection \<open>C10: the empty expression\<close>

text \<open>
  C10: the empty string is no expression: for every scope the call raises (SyntaxError)
  and returns nothing.
\<close>

theorem C10_empty_expression:
  assumes "G ''__builtins__'' = Some b"
  shows "eval_in_scope G '''' scope = Raises SyntaxError scope"
  using assms eval_in_scope_unfold[of G b "''''" scope]
  by (simp add: parse_def parse_fuel_def eval_nat_numeral)

theorem C10_empty_expression_witness:
  "script_globals ''__builtins__'' = Some VBuiltinsModule
   \<and> eval_in_scope script_globals '''' [''a'' \<mapsto> VInt 1] = Raises SyntaxError [''a'' \<mapsto> VInt 1]"
  using C10_empty_expression[of script_globals VBuiltinsModule "[''a'' \<mapsto> VInt 1]"] script_builtins
  by simp

end
